theory Spec2Isabelle
  imports Main "HOL-Library.Log_Nat" "HOL-Library.Product_Lexorder"
begin

section \<open>Python values used by the recommender engine\<close>

text \<open>
  The engine is \<^verbatim>\<open>src/recommender_engine.py\<close>. User and product ids are Python
  integers (\<open>int\<close>). A Python \<^verbatim>\<open>float\<close> is an IEEE 754 binary64 number; it is
  modelled by the rational number it denotes, and every arithmetic operation rounds its
  exact result to the nearest binary64 number, ties to even. Only the normal range is
  modelled (no overflow, no subnormal numbers, no NaN): the scores of the engine are
  sums and products of a few numbers between 0 and the length of a list.
\<close>

type_synonym py_float = rat

definition two_powi :: "int \<Rightarrow> rat" where
  "two_powi e = (if 0 \<le> e then 2 ^ nat e else 1 / 2 ^ nat (- e))"

definition float_exponent :: "rat \<Rightarrow> int" where
  \<comment> \<open>for \<open>0 < x\<close>: the \<open>e\<close> with \<open>2 ^ e \<le> x < 2 ^ (e + 1)\<close>\<close>
  "float_exponent x =
     (let (p, q) = quotient_of x; d = bitlen p - bitlen q
      in if two_powi d \<le> x then d else d - 1)"

definition round_half_even :: "rat \<Rightarrow> int" where
  "round_half_even m =
     (let r = \<lfloor>m\<rfloor>; f = m - of_int r
      in if f < 1 / 2 then r else if 1 / 2 < f then r + 1
         else if even r then r else r + 1)"

definition float_round_pos :: "rat \<Rightarrow> py_float" where
  \<comment> \<open>53 significant bits: the unit in the last place is \<open>2 ^ (e - 52)\<close>\<close>
  "float_round_pos x =
     (let u = two_powi (float_exponent x - 52)
      in of_int (round_half_even (x / u)) * u)"

definition float_round :: "rat \<Rightarrow> py_float" where
  "float_round x =
     (if x = 0 then 0 else if x < 0 then - float_round_pos (- x) else float_round_pos x)"

definition float_mul :: "py_float \<Rightarrow> py_float \<Rightarrow> py_float" where
  "float_mul a b = float_round (a * b)"

definition float_add :: "py_float \<Rightarrow> py_float \<Rightarrow> py_float" where
  "float_add a b = float_round (a + b)"

text \<open>The literals \<^verbatim>\<open>0.6\<close> and \<^verbatim>\<open>0.4\<close> of \<^verbatim>\<open>hybrid_recommendations\<close>.\<close>

definition collab_weight :: py_float where
  "collab_weight = float_round (6 / 10)"

definition content_weight :: py_float where
  "content_weight = float_round (4 / 10)"

subsection \<open>Slices, dictionaries and sorting\<close>

text \<open>
  \<^verbatim>\<open>xs[:n]\<close>: a negative \<open>n\<close> counts from the end, and a slice never raises.
\<close>

definition slice_to :: "int \<Rightarrow> 'a list \<Rightarrow> 'a list" where
  "slice_to n xs = (if 0 \<le> n then take (nat n) xs else take (length xs - nat (- n)) xs)"

text \<open>
  A \<^verbatim>\<open>dict\<close> keeps its keys in insertion order; assigning to a key that is present
  keeps the key's place. It is an association list with distinct keys.
\<close>

type_synonym 'v dict = "(int \<times> 'v) list"

fun dict_set :: "'v dict \<Rightarrow> int \<Rightarrow> 'v \<Rightarrow> 'v dict" where
  "dict_set [] k v = [(k, v)]"
| "dict_set ((k', v') # d) k v = (if k' = k then (k, v) # d else (k', v') # dict_set d k v)"

definition dict_get :: "'v dict \<Rightarrow> int \<Rightarrow> 'v option" where
  "dict_get d k = map_of d k"

text \<open>
  \<^verbatim>\<open>sorted(d.items(), key=lambda x: x[1], reverse=True)\<close>: Python's sort is stable, also
  with \<^verbatim>\<open>reverse=True\<close>: items of equal score keep the order they have in the
  dictionary. \<open>sort_key\<close> is a stable insertion sort.
\<close>

definition sorted_reverse :: "('a \<Rightarrow> py_float) \<Rightarrow> 'a list \<Rightarrow> 'a list" where
  "sorted_reverse key xs = sort_key (\<lambda>x. - key x) xs"

section \<open>HybridRanker: the fusion of hybrid\_recommendations\<close>

text \<open>
  \<^verbatim>\<open>
  all_recs = {}
  for i, product_id in enumerate(collab_recs):
      all_recs[product_id] = (len(collab_recs) - i) * 0.6
  for i, product_id in enumerate(content_recs):
      if product_id in all_recs:
          all_recs[product_id] += (len(content_recs) - i) * 0.4
      else:
          all_recs[product_id] = (len(content_recs) - i) * 0.4
  sorted_recs = sorted(all_recs.items(), key=lambda x: x[1], reverse=True)
  return [p[0] for p in sorted_recs[:n_recommendations]]
  \<close>
\<close>

definition position_score :: "py_float \<Rightarrow> nat \<Rightarrow> nat \<Rightarrow> py_float" where
  \<comment> \<open>\<^verbatim>\<open>(len(recs) - i) * weight\<close>\<close>
  "position_score w L i = float_mul (of_nat (L - i)) w"

fun collab_loop :: "nat \<Rightarrow> nat \<Rightarrow> int list \<Rightarrow> py_float dict \<Rightarrow> py_float dict" where
  "collab_loop L i [] all_recs = all_recs"
| "collab_loop L i (product_id # rest) all_recs =
     collab_loop L (Suc i) rest
       (dict_set all_recs product_id (position_score collab_weight L i))"

fun content_loop :: "nat \<Rightarrow> nat \<Rightarrow> int list \<Rightarrow> py_float dict \<Rightarrow> py_float dict" where
  "content_loop L i [] all_recs = all_recs"
| "content_loop L i (product_id # rest) all_recs =
     content_loop L (Suc i) rest
       (case dict_get all_recs product_id of
          Some s \<Rightarrow>
            dict_set all_recs product_id (float_add s (position_score content_weight L i))
        | None \<Rightarrow> dict_set all_recs product_id (position_score content_weight L i))"

definition all_recs_of :: "int list \<Rightarrow> int list \<Rightarrow> py_float dict" where
  "all_recs_of collab_recs content_recs =
     content_loop (length content_recs) 0 content_recs
       (collab_loop (length collab_recs) 0 collab_recs [])"

definition hybrid_fuse :: "int list \<Rightarrow> int list \<Rightarrow> int \<Rightarrow> int list" where
  "hybrid_fuse collab_recs content_recs n =
     map fst (slice_to n (sorted_reverse snd (all_recs_of collab_recs content_recs)))"

section \<open>The engine: Catalog, InteractionLog and the library results\<close>

text \<open>
  \<^verbatim>\<open>products_df\<close> and \<^verbatim>\<open>interactions_df\<close> are tables read from the database; a
  table is the list of its rows. The column \<^verbatim>\<open>content\<close> of \<^verbatim>\<open>products_df\<close> does not
  exist after loading (\<open>None\<close>); \<^verbatim>\<open>content_based_filtering\<close> assigns it.
  \<^verbatim>\<open>interaction_type\<close> is a string column, compared with \<^verbatim>\<open>'purchase'\<close> and
  \<^verbatim>\<open>'view'\<close>.
\<close>

record product =
  prod_id :: int
  name :: string
  category :: string
  description :: string
  price :: py_float
  prod_rating :: py_float
  content :: "string option"

record interaction =
  user_id :: int
  product_id :: int
  interaction_type :: string
  rating :: py_float

record engine =
  products_df :: "product list"
  interactions_df :: "interaction list"

datatype py_error = IndexError | ValueError

text \<open>
  What scikit-learn, pandas, numpy and the Python runtime compute is not code of this
  repository. Their results are parameters of the model:
  \<^item> \<open>sorted_similarity purchase_data u\<close> is
    \<^verbatim>\<open>user_similarity_df[u].sort_values(ascending=False)\<close>, the column of user \<open>u\<close> of the
    cosine similarity of the pivot table of \<open>purchase_data\<close>, as the list of its
    (user id, similarity) entries in sorted order;
  \<^item> \<open>difference_order a b\<close> is the order in which a \<^verbatim>\<open>for\<close> loop visits
    \<^verbatim>\<open>set(a) - set(b)\<close>;
  \<^item> \<open>content_argsort contents\<close> is, for every row \<open>r\<close> of the cosine similarity
    of the TF-IDF matrix of the \<^verbatim>\<open>content\<close> column, \<^verbatim>\<open>content_similarity[r].argsort()\<close>;
    \<^verbatim>\<open>TfidfVectorizer.fit_transform\<close> raises \<^verbatim>\<open>ValueError\<close> on an empty vocabulary;
  \<^item> \<open>set_order adds\<close> is \<^verbatim>\<open>list(s)\<close> for the set \<open>s\<close> built by the calls
    \<^verbatim>\<open>s.add(x)\<close> for \<open>x\<close> in \<open>adds\<close>, and \<open>str_set_order\<close> the same for a set
    of strings;
  \<^item> \<open>float_str x\<close> is \<^verbatim>\<open>str(x)\<close> for a float \<open>x\<close>.
\<close>

record library =
  sorted_similarity :: "interaction list \<Rightarrow> int \<Rightarrow> (int \<times> py_float) list"
  difference_order :: "int list \<Rightarrow> int list \<Rightarrow> int list"
  content_argsort :: "string list \<Rightarrow> py_error + nat list list"
  set_order :: "int list \<Rightarrow> int list"
  str_set_order :: "string list \<Rightarrow> string list"
  float_str :: "py_float \<Rightarrow> string"

text \<open>\<^verbatim>\<open>Series.unique()\<close>: the distinct values in order of first appearance.\<close>

definition unique :: "'a list \<Rightarrow> 'a list" where
  "unique xs = rev (remdups (rev xs))"

section \<open>CollaborativeFilter: collaborative\_filtering\<close>

text \<open>
  The pivot table of the purchase rows: its index is the sorted distinct user ids, its
  columns the sorted distinct product ids, and a cell is the mean of the ratings of the
  rows of its user and product (\<^verbatim>\<open>aggfunc='mean'\<close> is the default of
  \<^verbatim>\<open>pivot_table\<close>), 0 when there is none (\<^verbatim>\<open>fill_value=0\<close>). The engine reads a cell
  only through \<^verbatim>\<open>> 0\<close>; the mean is taken exactly here, which has the sign of the
  rounded mean of ratings that are not negative.
\<close>

definition purchase_rows :: "interaction list \<Rightarrow> interaction list" where
  "purchase_rows rows = filter (\<lambda>r. interaction_type r = ''purchase'') rows"

definition matrix_index :: "interaction list \<Rightarrow> int list" where
  "matrix_index purchase_data = sort (remdups (map user_id purchase_data))"

definition matrix_columns :: "interaction list \<Rightarrow> int list" where
  "matrix_columns purchase_data = sort (remdups (map product_id purchase_data))"

definition matrix_cell :: "interaction list \<Rightarrow> int \<Rightarrow> int \<Rightarrow> py_float" where
  "matrix_cell purchase_data u p =
     (let rs = map rating (filter (\<lambda>r. user_id r = u \<and> product_id r = p) purchase_data)
      in if rs = [] then 0 else sum_list rs / of_nat (length rs))"

definition purchased_products :: "interaction list \<Rightarrow> int \<Rightarrow> int list" where
  \<comment> \<open>\<^verbatim>\<open>user_product_matrix.columns[user_product_matrix.loc[u] > 0]\<close>\<close>
  "purchased_products purchase_data u =
     filter (\<lambda>p. 0 < matrix_cell purchase_data u p) (matrix_columns purchase_data)"

definition similar_users :: "library \<Rightarrow> interaction list \<Rightarrow> int \<Rightarrow> (int \<times> py_float) list" where
  \<comment> \<open>\<^verbatim>\<open>user_similarity_df[user_id].sort_values(ascending=False)[1:6]\<close>\<close>
  "similar_users lib purchase_data u = take 5 (drop 1 (sorted_similarity lib purchase_data u))"

definition new_products :: "library \<Rightarrow> interaction list \<Rightarrow> int \<Rightarrow> int \<Rightarrow> int list" where
  \<comment> \<open>\<^verbatim>\<open>similar_user_products - user_products\<close>, in the order the loop visits it\<close>
  "new_products lib purchase_data u v =
     difference_order lib (purchased_products purchase_data v) (purchased_products purchase_data u)"

fun add_products :: "py_float \<Rightarrow> int list \<Rightarrow> py_float dict \<Rightarrow> py_float dict" where
  "add_products similarity_score [] recommendations = recommendations"
| "add_products similarity_score (p # ps) recommendations =
     add_products similarity_score ps
       (case dict_get recommendations p of
          None \<Rightarrow> dict_set recommendations p (float_add 0 similarity_score)
        | Some w \<Rightarrow> dict_set recommendations p (float_add w similarity_score))"

fun neighbour_loop ::
  "library \<Rightarrow> interaction list \<Rightarrow> int \<Rightarrow> (int \<times> py_float) list \<Rightarrow> py_float dict \<Rightarrow> py_float dict" where
  "neighbour_loop lib purchase_data u [] recommendations = recommendations"
| "neighbour_loop lib purchase_data u ((similar_user_id, similarity_score) # rest) recommendations =
     neighbour_loop lib purchase_data u rest
       (add_products similarity_score (new_products lib purchase_data u similar_user_id)
          recommendations)"

definition collaborative_filtering :: "library \<Rightarrow> engine \<Rightarrow> int \<Rightarrow> int \<Rightarrow> int list" where
  "collaborative_filtering lib e u n =
     (if length (interactions_df e) = 0 then []
      else let purchase_data = purchase_rows (interactions_df e) in
      if length purchase_data = 0 then []
      else if u \<notin> set (matrix_index purchase_data) then []
      else let recommendations =
                 neighbour_loop lib purchase_data u (similar_users lib purchase_data u) [];
               top_products = sorted_reverse snd recommendations
           in map fst (slice_to n top_products))"

section \<open>ContentFilter: content\_based\_filtering\<close>

definition user_product_ids :: "interaction list \<Rightarrow> int \<Rightarrow> string \<Rightarrow> int list" where
  \<comment> \<open>\<^verbatim>\<open>df[(df['user_id'] == u) & (df['interaction_type'] == t)]['product_id'].unique()\<close>\<close>
  "user_product_ids rows u t =
     unique (map product_id (filter (\<lambda>r. user_id r = u \<and> interaction_type r = t) rows))"

definition seed_products :: "interaction list \<Rightarrow> int \<Rightarrow> int list" where
  "seed_products rows u =
     (let user_purchases = user_product_ids rows u ''purchase'' in
      if length user_purchases = 0 then
        (let user_views = user_product_ids rows u ''view''
         in if length user_views > 0 then take 3 user_views else [1, 2, 3])
      else user_purchases)"

definition content_text :: "product \<Rightarrow> string" where
  "content_text p = category p @ '' '' @ description p"

definition with_content :: "product list \<Rightarrow> product list" where
  \<comment> \<open>\<^verbatim>\<open>self.products_df['content'] = category + ' ' + description\<close>\<close>
  "with_content ps = map (\<lambda>p. p\<lparr>content := Some (content_text p)\<rparr>) ps"

text \<open>
  \<^verbatim>\<open>content_similarity[product_idx]\<close>: numpy counts a negative index from the end and
  raises \<^verbatim>\<open>IndexError\<close> outside \<open>[-N, N)\<close>.
\<close>

definition matrix_row :: "'a list \<Rightarrow> int \<Rightarrow> py_error + 'a" where
  "matrix_row m i =
     (let N = int (length m)
      in if 0 \<le> i \<and> i < N then Inr (m ! nat i)
         else if - N \<le> i \<and> i < 0 then Inr (m ! nat (N + i))
         else Inl IndexError)"

definition most_similar :: "nat list \<Rightarrow> nat list" where
  \<comment> \<open>\<^verbatim>\<open>order[-6:-1][::-1]\<close>\<close>
  "most_similar order = rev (drop (length order - 6) (butlast order))"

fun similar_loop :: "product list \<Rightarrow> int list \<Rightarrow> nat list \<Rightarrow> int list \<Rightarrow> py_error + int list" where
  "similar_loop products user_purchases [] adds = Inr adds"
| "similar_loop products user_purchases (idx # rest) adds =
     (if idx < length products then
        (let similar_product_id = prod_id (products ! idx)
         in if similar_product_id \<notin> set user_purchases
            then similar_loop products user_purchases rest (adds @ [similar_product_id])
            else similar_loop products user_purchases rest adds)
      else Inl IndexError)"

fun seed_loop ::
  "nat list list \<Rightarrow> product list \<Rightarrow> int list \<Rightarrow> int list \<Rightarrow> int list \<Rightarrow> py_error + int list" where
  "seed_loop content_similarity products user_purchases [] adds = Inr adds"
| "seed_loop content_similarity products user_purchases (seed_id # rest) adds =
     (case matrix_row content_similarity (seed_id - 1) of
        Inl err \<Rightarrow> Inl err
      | Inr order \<Rightarrow>
          (case similar_loop products user_purchases (most_similar order) adds of
             Inl err \<Rightarrow> Inl err
           | Inr adds' \<Rightarrow> seed_loop content_similarity products user_purchases rest adds'))"

text \<open>
  The result of an operation that assigns to the engine is the pair of what it returns
  (or raises) and the engine afterwards.
\<close>

definition content_adds :: "library \<Rightarrow> product list \<Rightarrow> int list \<Rightarrow> py_error + int list" where
  \<comment> \<open>the similarity matrix and the two loops: the calls of \<^verbatim>\<open>recommendations.add\<close>, in order\<close>
  "content_adds lib products user_purchases =
     (case content_argsort lib (map content_text products) of
        Inl err \<Rightarrow> Inl err
      | Inr content_similarity \<Rightarrow>
          seed_loop content_similarity products user_purchases user_purchases [])"

definition content_from_seeds ::
  "library \<Rightarrow> engine \<Rightarrow> int list \<Rightarrow> int \<Rightarrow> (py_error + int list) \<times> engine" where
  "content_from_seeds lib e user_purchases n =
     (let e' = e\<lparr>products_df := with_content (products_df e)\<rparr>
      in case content_adds lib (products_df e') user_purchases of
           Inl err \<Rightarrow> (Inl err, e')
         | Inr adds \<Rightarrow> (Inr (slice_to n (set_order lib adds)), e'))"

definition content_based_filtering ::
  "library \<Rightarrow> engine \<Rightarrow> int \<Rightarrow> int \<Rightarrow> (py_error + int list) \<times> engine" where
  "content_based_filtering lib e u n =
     (if length (products_df e) = 0 \<or> length (interactions_df e) = 0 then (Inr [], e)
      else content_from_seeds lib e (seed_products (interactions_df e) u) n)"

section \<open>hybrid\_recommendations\<close>

definition hybrid_recommendations ::
  "library \<Rightarrow> engine \<Rightarrow> int \<Rightarrow> int \<Rightarrow> (py_error + int list) \<times> engine" where
  "hybrid_recommendations lib e u n =
     (let collab_recs = collaborative_filtering lib e u n
      in case content_based_filtering lib e u n of
           (Inl err, e') \<Rightarrow> (Inl err, e')
         | (Inr content_recs, e') \<Rightarrow> (Inr (hybrid_fuse collab_recs content_recs n), e'))"

section \<open>ExplanationGenerator: \_generate\_smart\_explanation\<close>



fun starts_with :: "string \<Rightarrow> string \<Rightarrow> bool" where
  "starts_with s [] = True"
| "starts_with [] (k # ks) = False"
| "starts_with (c # cs) (k # ks) = (c = k \<and> starts_with cs ks)"

fun contains :: "string \<Rightarrow> string \<Rightarrow> bool" where
  \<comment> \<open>\<^verbatim>\<open>keyword in s\<close>\<close>
  "contains [] keyword = (keyword = [])"
| "contains (c # cs) keyword = (starts_with (c # cs) keyword \<or> contains cs keyword)"











section \<open>The rankings as the specification words them\<close>

text \<open>
  The fusion in words: a product's score from one list is the position score of its
  place in the list, its total score the sum of its scores from the lists it is in; the
  candidates are the collaborative list followed by the products only in the content
  list.
\<close>

fun position_of :: "int \<Rightarrow> int list \<Rightarrow> nat option" where
  "position_of p [] = None"
| "position_of p (q # qs) = (if p = q then Some 0 else map_option Suc (position_of p qs))"

definition list_score :: "py_float \<Rightarrow> int list \<Rightarrow> int \<Rightarrow> py_float option" where
  "list_score w recs p = map_option (position_score w (length recs)) (position_of p recs)"

definition total_score :: "int list \<Rightarrow> int list \<Rightarrow> int \<Rightarrow> py_float" where
  "total_score collab_recs content_recs p =
     (case list_score collab_weight collab_recs p of
        Some a \<Rightarrow>
          (case list_score content_weight content_recs p of
             Some b \<Rightarrow> float_add a b
           | None \<Rightarrow> a)
      | None \<Rightarrow>
          (case list_score content_weight content_recs p of
             Some b \<Rightarrow> b
           | None \<Rightarrow> 0))"

definition fused_candidates :: "int list \<Rightarrow> int list \<Rightarrow> int list" where
  "fused_candidates collab_recs content_recs =
     collab_recs @ filter (\<lambda>p. p \<notin> set collab_recs) content_recs"

text \<open>
  The order the specification asks for: descending score, equal scores by ascending
  product id.
\<close>

definition hybrid_by_ascending_id :: "int list \<Rightarrow> int list \<Rightarrow> int \<Rightarrow> int list" where
  "hybrid_by_ascending_id collab_recs content_recs n =
     slice_to n
       (map fst
          (sort_key (\<lambda>(p, score). (- score, p))
             (map (\<lambda>p. (p, total_score collab_recs content_recs p))
                (fused_candidates collab_recs content_recs))))"




text \<open>
  The collaborative ranking in words: the stream of (product, similarity) additions made
  while the neighbours are visited in order, the weight a product accumulates from it,
  and the candidates in the order of their first addition.
\<close>

definition neighbour_adds :: "library \<Rightarrow> interaction list \<Rightarrow> int \<Rightarrow> (int \<times> py_float) list" where
  "neighbour_adds lib purchase_data u =
     concat (map (\<lambda>(v, s). map (\<lambda>p. (p, s)) (new_products lib purchase_data u v))
               (similar_users lib purchase_data u))"

fun add_stream :: "(int \<times> py_float) list \<Rightarrow> py_float dict \<Rightarrow> py_float dict" where
  \<comment> \<open>the two nested loops of \<^verbatim>\<open>collaborative_filtering\<close> as one loop over the additions\<close>
  "add_stream [] recommendations = recommendations"
| "add_stream ((p, s) # rest) recommendations =
     add_stream rest
       (case dict_get recommendations p of
          None \<Rightarrow> dict_set recommendations p (float_add 0 s)
        | Some w \<Rightarrow> dict_set recommendations p (float_add w s))"

definition accumulated_weight :: "(int \<times> py_float) list \<Rightarrow> int \<Rightarrow> py_float" where
  "accumulated_weight adds p = foldl float_add 0 (map snd (filter (\<lambda>(q, s). q = p) adds))"

definition in_matrix :: "engine \<Rightarrow> int \<Rightarrow> bool" where
  "in_matrix e u = (u \<in> set (matrix_index (purchase_rows (interactions_df e))))"

definition collaborative_by_ascending_id :: "library \<Rightarrow> engine \<Rightarrow> int \<Rightarrow> int \<Rightarrow> int list" where
  "collaborative_by_ascending_id lib e u n =
     (if in_matrix e u then
        (let adds = neighbour_adds lib (purchase_rows (interactions_df e)) u
         in slice_to n
              (map fst
                 (sort_key (\<lambda>(p, weight). (- weight, p))
                    (map (\<lambda>p. (p, accumulated_weight adds p)) (unique (map fst adds))))))
      else [])"

text \<open>
  The content ranking in words: in accumulation order the result is the distinct
  additions in the order of their first occurrence.
\<close>

definition content_in_accumulation_order :: "library \<Rightarrow> engine \<Rightarrow> int \<Rightarrow> int \<Rightarrow> py_error + int list" where
  "content_in_accumulation_order lib e u n =
     (if length (products_df e) = 0 \<or> length (interactions_df e) = 0 then Inr []
      else case content_adds lib (with_content (products_df e))
                  (seed_products (interactions_df e) u) of
             Inl err \<Rightarrow> Inl err
           | Inr adds \<Rightarrow> Inr (slice_to n (unique adds)))"

definition valid_argsort :: "nat list list \<Rightarrow> nat \<Rightarrow> bool" where
  \<comment> \<open>one row per product, every entry the index of a product\<close>
  "valid_argsort content_similarity N =
     (length content_similarity = N \<and> (\<forall>row \<in> set content_similarity. \<forall>idx \<in> set row. idx < N))"

section \<open>Example data\<close>

text \<open>
  A runtime for the examples: CPython iterates a set of a few small integers in
  ascending order (the hash of an integer is the integer, and the table of a small set
  is visited slot by slot), and \<^verbatim>\<open>str(4.5)\<close> is \<^verbatim>\<open>'4.5'\<close>, the only rating the examples
  print. The similarity results are set per example.
\<close>

definition library0 :: library where
  "library0 = \<lparr>sorted_similarity = (\<lambda>purchase_data u. []),
               difference_order = (\<lambda>a b. filter (\<lambda>p. p \<notin> set b) (sort (remdups a))),
               content_argsort = (\<lambda>contents. Inr []),
               set_order = (\<lambda>adds. sort (remdups adds)),
               str_set_order = remdups,
               float_str = (\<lambda>x. ''4.5'')\<rparr>"

definition usb_charger :: product where
  "usb_charger = \<lparr>prod_id = 4, name = ''USB Charger'', category = ''Electronics'',
                   description = ''fast usb charger'', price = float_round (1999 / 100),
                   prod_rating = 9 / 2, content = None\<rparr>"

text \<open>
  Catalog A: four products; the contents of products 1 and 4 share the term
  \<^verbatim>\<open>electronics\<close>, no other two contents share a term. In every row of the content
  similarity the product itself is last in \<^verbatim>\<open>argsort\<close>, before it the product it shares a
  term with, first the products of similarity 0. User 7 purchased product 1.
\<close>

definition wireless_mouse :: product where
  "wireless_mouse = \<lparr>prod_id = 1, name = ''Wireless Mouse'', category = ''Electronics'',
                      description = ''wireless optical mouse'', price = float_round (2599 / 100),
                      prod_rating = 9 / 2, content = None\<rparr>"

definition yoga_mat :: product where
  "yoga_mat = \<lparr>prod_id = 2, name = ''Yoga Mat'', category = ''Sports & Fitness'',
                description = ''non-slip yoga mat'', price = float_round (2999 / 100),
                prod_rating = 9 / 2, content = None\<rparr>"

definition novel :: product where
  "novel = \<lparr>prod_id = 3, name = ''Novel'', category = ''Books'',
             description = ''bestselling mystery novel'', price = float_round (1499 / 100),
             prod_rating = 9 / 2, content = None\<rparr>"

definition purchase_of :: "int \<Rightarrow> int \<Rightarrow> interaction" where
  "purchase_of u p = \<lparr>user_id = u, product_id = p, interaction_type = ''purchase'', rating = 5\<rparr>"

definition catalog_A :: "product list" where
  "catalog_A = [wireless_mouse, yoga_mat, novel, usb_charger]"

definition engine_A :: engine where
  "engine_A = \<lparr>products_df = catalog_A, interactions_df = [purchase_of 7 1]\<rparr>"

definition library_A :: library where
  "library_A = library0
     \<lparr>sorted_similarity := (\<lambda>purchase_data u. [(7, 1)]),
      content_argsort := (\<lambda>contents. Inr [[1, 2, 3, 0], [0, 2, 3, 1], [0, 1, 3, 2], [1, 2, 0, 3]])\<rparr>"

text \<open>
  Engine B: user 1 purchased product 1, user 2 products 1 and 9, users 3 and 4 products 1
  to 8, all with rating 5. The cosine similarities of user 1 are 1 with itself,
  \<open>5 / sqrt 50\<close> with user 2 and \<open>5 / sqrt 200\<close>, half of it, with users 3 and 4 (as
  binary64 numbers).
\<close>

definition engine_B :: engine where
  "engine_B = \<lparr>products_df = catalog_A,
                interactions_df = [purchase_of 1 1, purchase_of 2 1, purchase_of 2 9]
                  @ map (purchase_of 3) [1, 2, 3, 4, 5, 6, 7, 8]
                  @ map (purchase_of 4) [1, 2, 3, 4, 5, 6, 7, 8]\<rparr>"

definition library_B :: library where
  "library_B = library0
     \<lparr>sorted_similarity := (\<lambda>purchase_data u.
        [(1, 1), (2, 1592262918131443 / 2251799813685248),
         (3, 1592262918131443 / 4503599627370496), (4, 1592262918131443 / 4503599627370496)])\<rparr>"

text \<open>
  Engine C: users 1 and 2 purchased product 1, user 3 product 2. The similarity column of
  user 2 (and of user 1) is 1, 1, 0 for the users 1, 2, 3; sorted in descending order,
  equal values in the order of the index, it stays so.
\<close>

definition engine_C :: engine where
  "engine_C = \<lparr>products_df = catalog_A,
                interactions_df = [purchase_of 1 1, purchase_of 2 1, purchase_of 3 2]\<rparr>"

definition library_C :: library where
  "library_C = library0 \<lparr>sorted_similarity := (\<lambda>purchase_data u. [(1, 1), (2, 1), (3, 0)])\<rparr>"

text \<open>
  Engine D: catalog A; users 7 and 8 purchased product 1, and user 8 also product 10,
  which the catalog does not have. The similarity of the two users is \<open>5 / sqrt 50\<close>.
\<close>

definition engine_D :: engine where
  "engine_D = \<lparr>products_df = catalog_A,
                interactions_df = [purchase_of 7 1, purchase_of 8 1, purchase_of 8 10]\<rparr>"

definition library_D :: library where
  "library_D = library_A
     \<lparr>sorted_similarity := (\<lambda>purchase_data u.
        if u = 7 then [(7, 1), (8, 1592262918131443 / 2251799813685248)]
        else [(8, 1), (7, 1592262918131443 / 2251799813685248)])\<rparr>"

text \<open>
  Engine E: catalog A under the ids 2 to 5 instead of 1 to 4 (the same contents, so the
  same similarity rows as in \<open>library_A\<close>); user 7 purchased the product of id 2.
\<close>

definition catalog_E :: "product list" where
  "catalog_E = map (\<lambda>p. p\<lparr>prod_id := prod_id p + 1\<rparr>) catalog_A"

definition engine_E :: engine where
  "engine_E = \<lparr>products_df = catalog_E, interactions_df = [purchase_of 7 2]\<rparr>"

text \<open>
  Engine F: a catalog of the two products 1 and 2, whose contents share no term; user 7
  purchased product 1.
\<close>

definition engine_F :: engine where
  "engine_F = \<lparr>products_df = [wireless_mouse, yoga_mat],
                interactions_df = [purchase_of 7 1]\<rparr>"

definition library_F :: library where
  "library_F = library0
     \<lparr>sorted_similarity := (\<lambda>purchase_data u. [(7, 1)]),
      content_argsort := (\<lambda>contents. Inr [[1, 0], [0, 1]])\<rparr>"

section \<open>Properties\<close>

subsection \<open>Dictionaries, slices and the stable sort\<close>

lemma slice_to_length: "length (slice_to n xs) \<le> length xs"
  by (simp add: slice_to_def)

lemma keys_dict_set:
  "map fst (dict_set d k v) = (if k \<in> set (map fst d) then map fst d else map fst d @ [k])"
  by (induction d k v rule: dict_set.induct) auto

lemma map_of_dict_set: "map_of (dict_set d k v) = (map_of d)(k \<mapsto> v)"
  by (induction d k v rule: dict_set.induct) auto

lemma dict_items_eq:
  "distinct (map fst d) \<Longrightarrow> d = map (\<lambda>k. (k, the (map_of d k))) (map fst d)"
proof (induction d)
  case Nil
  then show ?case by simp
next
  case (Cons kv d)
  obtain k v where kv: "kv = (k, v)" by (cases kv)
  from Cons.prems kv have k: "k \<notin> fst ` set d" and dd: "distinct (map fst d)" by auto
  have "map (\<lambda>x. (x, the (map_of (kv # d) x))) (map fst d)
        = map (\<lambda>x. (x, the (map_of d x))) (map fst d)"
    using k kv by (intro map_cong) auto
  with Cons.IH [OF dd] kv show ?case by simp
qed

lemma insort_key_map:
  "insort_key f (g x) (map g xs) = map g (insort_key (\<lambda>y. f (g y)) x xs)"
  by (induction xs) auto

lemma sort_key_map: "sort_key f (map g xs) = map g (sort_key (\<lambda>y. f (g y)) xs)"
  by (induction xs) (auto simp: insort_key_map)

lemma map_slice_to: "map f (slice_to n xs) = slice_to n (map f xs)"
  by (simp add: slice_to_def take_map)

lemma position_of_None: "position_of p xs = None \<longleftrightarrow> p \<notin> set xs"
  by (induction xs) auto

lemma position_of_Some: "position_of p xs = Some j \<Longrightarrow> p \<in> set xs"
  using position_of_None [of p xs] by auto

lemma keys_step:
  assumes "p \<notin> set ps"
    and "map fst d' = (if p \<in> set (map fst d) then map fst d else map fst d @ [p])"
  shows "map fst d' @ filter (\<lambda>q. q \<notin> set (map fst d')) ps
         = map fst d @ filter (\<lambda>q. q \<notin> set (map fst d)) (p # ps)"
proof (cases "p \<in> set (map fst d)")
  case True
  with assms(2) show ?thesis by simp
next
  case False
  have "filter (\<lambda>q. q \<notin> set (map fst d @ [p])) ps = filter (\<lambda>q. q \<notin> set (map fst d)) ps"
    using assms(1) by (intro filter_cong) auto
  with False assms(2) show ?thesis by simp
qed

lemma keys_collab_loop:
  "distinct ps \<Longrightarrow>
   map fst (collab_loop L i ps d) = map fst d @ filter (\<lambda>p. p \<notin> set (map fst d)) ps"
proof (induction ps arbitrary: i d)
  case Nil
  then show ?case by simp
next
  case (Cons p ps)
  let ?d' = "dict_set d p (position_score collab_weight L i)"
  from Cons.prems have p: "p \<notin> set ps" and ps: "distinct ps" by auto
  have "map fst (collab_loop L i (p # ps) d) = map fst (collab_loop L (Suc i) ps ?d')"
    by simp
  also have "\<dots> = map fst ?d' @ filter (\<lambda>q. q \<notin> set (map fst ?d')) ps"
    by (rule Cons.IH [OF ps])
  also have "\<dots> = map fst d @ filter (\<lambda>q. q \<notin> set (map fst d)) (p # ps)"
    by (rule keys_step [OF p keys_dict_set])
  finally show ?case .
qed

lemma keys_content_loop:
  "distinct ps \<Longrightarrow>
   map fst (content_loop L i ps d) = map fst d @ filter (\<lambda>p. p \<notin> set (map fst d)) ps"
proof (induction ps arbitrary: i d)
  case Nil
  then show ?case by simp
next
  case (Cons p ps)
  from Cons.prems have p: "p \<notin> set ps" and ps: "distinct ps" by auto
  obtain v where step: "content_loop L i (p # ps) d = content_loop L (Suc i) ps (dict_set d p v)"
    by (cases "dict_get d p") auto
  have "map fst (content_loop L (Suc i) ps (dict_set d p v))
        = map fst (dict_set d p v) @ filter (\<lambda>q. q \<notin> set (map fst (dict_set d p v))) ps"
    by (rule Cons.IH [OF ps])
  also have "\<dots> = map fst d @ filter (\<lambda>q. q \<notin> set (map fst d)) (p # ps)"
    by (rule keys_step [OF p keys_dict_set])
  finally show ?case using step by simp
qed

lemma map_of_collab_loop:
  "distinct ps \<Longrightarrow> map_of (collab_loop L i ps d) p =
     (case position_of p ps of
        Some j \<Rightarrow> Some (position_score collab_weight L (i + j))
      | None \<Rightarrow> map_of d p)"
proof (induction ps arbitrary: i d)
  case Nil
  then show ?case by simp
next
  case (Cons q ps)
  then show ?case
    by (auto simp: map_of_dict_set position_of_None split: option.splits dest: position_of_Some)
qed

lemma map_of_content_loop:
  "distinct ps \<Longrightarrow> map_of (content_loop L i ps d) p =
     (case position_of p ps of
        Some j \<Rightarrow> Some (case map_of d p of
                          Some s \<Rightarrow> float_add s (position_score content_weight L (i + j))
                        | None \<Rightarrow> position_score content_weight L (i + j))
      | None \<Rightarrow> map_of d p)"
proof (induction ps arbitrary: i d)
  case Nil
  then show ?case by simp
next
  case (Cons q ps)
  then show ?case
    by (auto simp: map_of_dict_set dict_get_def position_of_None split: option.splits dest: position_of_Some)
qed


lemma sorted_reverse_descending: "sorted (map (\<lambda>x. - key x) (sorted_reverse key xs))"
  by (simp add: sorted_reverse_def)

lemma sorted_reverse_stable:
  "filter (\<lambda>x. key x = s) (sorted_reverse key xs) = filter (\<lambda>x. key x = s) xs"
  using sort_key_stable [of "\<lambda>x. - key x" "- s" xs] by (simp add: sorted_reverse_def)

subsection \<open>Strings\<close>

lemma starts_with_iff: "starts_with s k \<longleftrightarrow> (\<exists>b. s = k @ b)"
  by (induction s k rule: starts_with.induct) auto

lemma contains_iff: "contains s k \<longleftrightarrow> (\<exists>a b. s = a @ k @ b)"
proof (induction s)
  case Nil
  then show ?case by auto
next
  case (Cons c cs)
  show ?case
  proof
    assume "contains (c # cs) k"
    then consider "starts_with (c # cs) k" | "contains cs k" by auto
    then show "\<exists>a b. c # cs = a @ k @ b"
    proof cases
      case 1
      then obtain b where "c # cs = k @ b" by (auto simp: starts_with_iff)
      then have "c # cs = [] @ k @ b" by simp
      then show ?thesis by blast
    next
      case 2
      with Cons.IH obtain a b where "cs = a @ k @ b" by auto
      then have "c # cs = (c # a) @ k @ b" by simp
      then show ?thesis by blast
    qed
  next
    assume "\<exists>a b. c # cs = a @ k @ b"
    then obtain a b where ab: "c # cs = a @ k @ b" by blast
    show "contains (c # cs) k"
    proof (cases a)
      case Nil
      with ab have "starts_with (c # cs) k" by (auto simp: starts_with_iff)
      then show ?thesis by simp
    next
      case (Cons a0 as)
      with ab have "cs = as @ k @ b" by simp
      with Cons.IH have "contains cs k" by blast
      then show ?thesis by simp
    qed
  qed
qed





subsection \<open>HybridRanker\<close>

lemma all_recs_of_items:
  assumes "distinct collab_recs" and "distinct content_recs"
  shows "all_recs_of collab_recs content_recs =
         map (\<lambda>p. (p, total_score collab_recs content_recs p))
           (fused_candidates collab_recs content_recs)"
proof -
  let ?c = "collab_loop (length collab_recs) 0 collab_recs []"
  let ?d = "all_recs_of collab_recs content_recs"
  have kc: "map fst ?c = collab_recs"
    using keys_collab_loop [OF assms(1), of "length collab_recs" 0 "[]"] by simp
  have keys: "map fst ?d = fused_candidates collab_recs content_recs"
    using keys_content_loop [OF assms(2), of "length content_recs" 0 ?c]
    by (simp add: all_recs_of_def fused_candidates_def kc)
  have dist: "distinct (map fst ?d)"
    using assms by (auto simp: keys fused_candidates_def)
  have vc: "map_of ?c p = list_score collab_weight collab_recs p" for p
    using map_of_collab_loop [OF assms(1), of "length collab_recs" 0 "[]" p]
    by (simp add: list_score_def split: option.splits)
  have vd: "map_of ?d p =
        (if p \<in> set (fused_candidates collab_recs content_recs)
         then Some (total_score collab_recs content_recs p) else None)" for p
    using map_of_content_loop [OF assms(2), of "length content_recs" 0 ?c p]
    by (auto simp: all_recs_of_def vc total_score_def list_score_def fused_candidates_def
        position_of_None split: option.splits dest: position_of_Some)
  have "?d = map (\<lambda>p. (p, the (map_of ?d p))) (map fst ?d)"
    by (rule dict_items_eq [OF dist])
  also have "\<dots> = map (\<lambda>p. (p, total_score collab_recs content_recs p))
                     (fused_candidates collab_recs content_recs)"
    unfolding keys by (intro map_cong) (auto simp: vd)
  finally show ?thesis .
qed

lemma hybrid_fuse_ranked:
  assumes "distinct collab_recs" and "distinct content_recs"
  shows "hybrid_fuse collab_recs content_recs n =
         slice_to n
           (sorted_reverse (total_score collab_recs content_recs)
              (fused_candidates collab_recs content_recs))"
  by (simp add: hybrid_fuse_def all_recs_of_items [OF assms] map_slice_to sorted_reverse_def
      sort_key_map comp_def)

text \<open>
  C1 (as amended). For collaborative and content lists without repeated ids and every
  \<open>n\<close>, the fusion gives the product at 0-indexed position \<open>i\<close> of a list of length
  \<open>L\<close> the score \<open>(L - i) * weight\<close>, weight 0.6 for the collaborative and 0.4 for the
  content list, sums the two scores of a product of both lists, and orders the products
  by descending total score; products of equal total score stay in the order in which
  the dictionary received them (the collaborative list first, then the products only in
  the content list), not in the order of their ids. The result is the slice \<open>[:n]\<close> of
  that ranking.
\<close>

theorem hybrid_fuse_by_position:
  assumes "distinct collab_recs" and "distinct content_recs"
  shows "(let total = total_score collab_recs content_recs;
              candidates = fused_candidates collab_recs content_recs;
              ranked = sorted_reverse total candidates
          in hybrid_fuse collab_recs content_recs n = slice_to n ranked
             \<and> sorted (map (\<lambda>p. - total p) ranked)
             \<and> (\<forall>s. filter (\<lambda>p. total p = s) ranked = filter (\<lambda>p. total p = s) candidates))"
  using hybrid_fuse_ranked [OF assms]
  by (simp add: Let_def sorted_reverse_descending sorted_reverse_stable)

theorem hybrid_fuse_by_position_witness:
  "distinct [9, 8 :: int] \<and> distinct [1, 2, 3, 9 :: int]
   \<and> hybrid_fuse [9, 8] [1, 2, 3, 9] 2 =
       slice_to 2 (sorted_reverse (total_score [9, 8] [1, 2, 3, 9])
                     (fused_candidates [9, 8] [1, 2, 3, 9]))"
  using hybrid_fuse_by_position [of "[9, 8]" "[1, 2, 3, 9]" 2]
  by (simp add: Let_def)

text \<open>
  C1 as stated fails: with the collaborative list \<open>[9, 8]\<close> and the content list
  \<open>[1, 2, 3, 9]\<close>, products 9 and 1 have the same total score (\<open>2 * 0.6 + 1 * 0.4\<close> and
  \<open>4 * 0.4\<close> are the same binary64 number), and the engine ranks 9 before 1.
\<close>

theorem hybrid_fuse_tie_counterexample:
  "hybrid_fuse [9, 8] [1, 2, 3, 9] 1 = [9]
   \<and> hybrid_by_ascending_id [9, 8] [1, 2, 3, 9] 1 = [1]
   \<and> total_score [9, 8] [1, 2, 3, 9] 9 = total_score [9, 8] [1, 2, 3, 9] 1"
  by code_simp

subsection \<open>ExplanationGenerator\<close>




subsection \<open>ContentFilter\<close>

lemma most_similar_ranks: "most_similar order = take 5 (drop 1 (rev order))"
proof -
  let ?xs = "rev (butlast order)"
  have len: "length ?xs = length order - 1" by simp
  have "rev (drop (length order - 6) (butlast order))
        = take (length order - 1 - (length order - 6)) ?xs"
    by (simp add: rev_drop)
  also have "\<dots> = take 5 ?xs"
  proof (cases "6 \<le> length order")
    case True
    then have "length order - 1 - (length order - 6) = 5" by simp
    then show ?thesis by simp
  next
    case False
    then show ?thesis using len by simp
  qed
  also have "?xs = drop 1 (rev order)"
    by (cases order rule: rev_cases) simp_all
  finally show ?thesis by (simp add: most_similar_def)
qed

lemma set_most_similar: "set (most_similar order) \<subseteq> set order"
  unfolding most_similar_ranks using set_take_subset set_drop_subset by fastforce

lemma similar_loop_eq:
  "similar_loop products seeds idxs adds =
     (if \<forall>idx \<in> set idxs. idx < length products
      then Inr (adds @ filter (\<lambda>p. p \<notin> set seeds) (map (\<lambda>idx. prod_id (products ! idx)) idxs))
      else Inl IndexError)"
  by (induction idxs arbitrary: adds) (auto simp: Let_def)

lemma with_content_columns:
  "map content_text (with_content ps) = map content_text ps"
  "map prod_id (with_content ps) = map prod_id ps"
  "length (with_content ps) = length ps"
  by (simp_all add: with_content_def content_text_def)

lemma fst_content_based_filtering:
  "fst (content_based_filtering lib e u n) =
     (if products_df e = [] \<or> interactions_df e = [] then Inr []
      else case content_adds lib (with_content (products_df e))
                  (seed_products (interactions_df e) u) of
             Inl err \<Rightarrow> Inl err
           | Inr adds \<Rightarrow> Inr (slice_to n (set_order lib adds)))"
  by (simp add: content_based_filtering_def content_from_seeds_def Let_def split: sum.splits)

lemma snd_content_based_filtering:
  "snd (content_based_filtering lib e u n) =
     (if products_df e = [] \<or> interactions_df e = [] then e
      else e\<lparr>products_df := with_content (products_df e)\<rparr>)"
  by (simp add: content_based_filtering_def content_from_seeds_def Let_def split: sum.splits)

text \<open>
  C3. The claim holds of what the loops accumulate and fails on what the engine returns:
  the additions are made seed by seed, each seed's neighbours most similar first, but
  they go into a set, and the result is the slice \<open>[:n]\<close> of the set in the runtime's
  iteration order. In engine A user 7 purchased product 1, whose similarity row adds the
  products 4, 3, 2 in this order (4 is the most similar); the set is iterated as 2, 3, 4,
  and for \<open>n = 1\<close> the engine returns product 2 where the accumulation order gives
  product 4.
\<close>

theorem content_accumulation_order_counterexample:
  "content_adds library_A (with_content (products_df engine_A))
     (seed_products (interactions_df engine_A) 7) = Inr [4, 3, 2]
   \<and> fst (content_based_filtering library_A engine_A 7 1) = Inr [2]
   \<and> content_in_accumulation_order library_A engine_A 7 1 = Inr [4]"
  by code_simp

lemma unique_Nil: "unique [] = []"
  by (simp add: unique_def)

lemma seed_products_cold:
  assumes "\<forall>r \<in> set rows. user_id r = u \<longrightarrow>
             interaction_type r \<noteq> ''purchase'' \<and> interaction_type r \<noteq> ''view''"
  shows "seed_products rows u = [1, 2, 3]"
proof -
  have "filter (\<lambda>r. user_id r = u \<and> interaction_type r = t) rows = []"
    if "t = ''purchase'' \<or> t = ''view''" for t
    using assms that by (auto simp: filter_empty_conv)
  then show ?thesis by (simp add: seed_products_def user_product_ids_def unique_Nil)
qed

lemma three_lowest_of_dense:
  assumes "ids = [1..int N]" and "3 \<le> N"
  shows "take 3 (sort ids) = [1, 2, 3]"
proof -
  have "sort ids = ids" using assms(1) by (simp add: sorted_sort_id)
  moreover have "[1..int N] = 1 # 2 # 3 # [4..int N]"
    using assms(2) by (simp add: upto_rec1 [of 1] upto_rec1 [of 2] upto_rec1 [of 3])
  ultimately show ?thesis using assms(1) by simp
qed

text \<open>
  C6 (as amended). A user with no purchase and no view interaction gets the fixed seeds
  1, 2, 3, whatever the catalog is; they are the three lowest catalog product ids when
  the catalog ids are 1 to \<open>N\<close> in order and \<open>N\<close> is at least 3. Any two such users get
  the same contentRank result (the same list or the same error), and leave the same
  engine, for the same \<open>n\<close>.
\<close>

theorem cold_start_seeds:
  assumes "\<forall>r \<in> set (interactions_df e). user_id r = u1 \<longrightarrow>
             interaction_type r \<noteq> ''purchase'' \<and> interaction_type r \<noteq> ''view''"
    and "\<forall>r \<in> set (interactions_df e). user_id r = u2 \<longrightarrow>
             interaction_type r \<noteq> ''purchase'' \<and> interaction_type r \<noteq> ''view''"
  shows "seed_products (interactions_df e) u1 = [1, 2, 3]
         \<and> (map prod_id (products_df e) = [1..int (length (products_df e))]
              \<and> 3 \<le> length (products_df e)
              \<longrightarrow> seed_products (interactions_df e) u1
                  = take 3 (sort (map prod_id (products_df e))))
         \<and> content_based_filtering lib e u1 n = content_based_filtering lib e u2 n"
proof -
  have s1: "seed_products (interactions_df e) u1 = [1, 2, 3]"
    by (rule seed_products_cold [OF assms(1)])
  have s2: "seed_products (interactions_df e) u2 = [1, 2, 3]"
    by (rule seed_products_cold [OF assms(2)])
  have "take 3 (sort (map prod_id (products_df e))) = [1, 2, 3]"
    if "map prod_id (products_df e) = [1..int (length (products_df e))]"
      and "3 \<le> length (products_df e)"
    using that by (rule three_lowest_of_dense)
  moreover have "content_based_filtering lib e u1 n = content_based_filtering lib e u2 n"
    by (simp add: content_based_filtering_def s1 s2)
  ultimately show ?thesis using s1 by simp
qed

theorem cold_start_seeds_witness:
  "filter (\<lambda>r. user_id r = 99 \<or> user_id r = 98) (interactions_df engine_A) = []
   \<and> seed_products (interactions_df engine_A) 99 = [1, 2, 3]
   \<and> seed_products (interactions_df engine_A) 99
       = take 3 (sort (map prod_id (products_df engine_A)))
   \<and> content_based_filtering library_A engine_A 99 5
       = content_based_filtering library_A engine_A 98 5"
proof -
  have h1: "\<forall>r \<in> set (interactions_df engine_A). user_id r = 99 \<longrightarrow>
             interaction_type r \<noteq> ''purchase'' \<and> interaction_type r \<noteq> ''view''"
    by (simp add: engine_A_def purchase_of_def)
  have h2: "\<forall>r \<in> set (interactions_df engine_A). user_id r = 98 \<longrightarrow>
             interaction_type r \<noteq> ''purchase'' \<and> interaction_type r \<noteq> ''view''"
    by (simp add: engine_A_def purchase_of_def)
  have d: "map prod_id (products_df engine_A) = [1..int (length (products_df engine_A))]"
    by code_simp
  have l: "3 \<le> length (products_df engine_A)" by code_simp
  have f: "filter (\<lambda>r. user_id r = 99 \<or> user_id r = 98) (interactions_df engine_A) = []"
    by (simp add: engine_A_def purchase_of_def)
  from cold_start_seeds [OF h1 h2, of library_A 5] d l f show ?thesis by blast
qed

text \<open>
  C6 as stated fails: the catalog of engine E has the ids 2 to 5, so its three lowest ids
  are 2, 3, 4; the seeds of the user 99, who has no interaction, are 1, 2, 3, and
  contentRank returns the products 4 and 5, where the seeds 2, 3, 4 give product 5.
\<close>

theorem cold_start_literal_seeds_counterexample:
  "filter (\<lambda>r. user_id r = 99) (interactions_df engine_E) = []
   \<and> seed_products (interactions_df engine_E) 99 = [1, 2, 3]
   \<and> take 3 (sort (map prod_id (products_df engine_E))) = [2, 3, 4]
   \<and> fst (content_based_filtering library_A engine_E 99 5) = Inr [4, 5]
   \<and> fst (content_from_seeds library_A engine_E [2, 3, 4] 5) = Inr [5]"
  by code_simp

subsection \<open>Unknown users, missing products, the engine's state and negative counts\<close>

lemma set_matrix_index: "set (matrix_index purchase_data) = user_id ` set purchase_data"
  by (simp add: matrix_index_def)

lemma collaborative_filtering_unknown:
  assumes "\<forall>r \<in> set (interactions_df e). user_id r \<noteq> u"
  shows "collaborative_filtering lib e u n = []"
proof -
  have "u \<notin> set (matrix_index (purchase_rows (interactions_df e)))"
    using assms by (auto simp: set_matrix_index purchase_rows_def)
  then show ?thesis by (simp add: collaborative_filtering_def Let_def)
qed

lemma fst_hybrid_recommendations:
  "fst (hybrid_recommendations lib e u n) =
     (case fst (content_based_filtering lib e u n) of
        Inl err \<Rightarrow> Inl err
      | Inr content_recs \<Rightarrow>
          Inr (hybrid_fuse (collaborative_filtering lib e u n) content_recs n))"
  by (simp add: hybrid_recommendations_def Let_def split: prod.splits sum.splits)

lemma snd_hybrid_recommendations:
  "snd (hybrid_recommendations lib e u n) = snd (content_based_filtering lib e u n)"
  by (simp add: hybrid_recommendations_def Let_def split: prod.splits sum.splits)

lemma matrix_row_in_range:
  assumes "- int (length m) \<le> i" and "i < int (length m)"
  shows "\<exists>row \<in> set m. matrix_row m i = Inr row"
proof (cases "0 \<le> i")
  case True
  with assms have "nat i < length m" by simp
  then show ?thesis using True assms by (auto simp: matrix_row_def Let_def)
next
  case False
  with assms have "nat (int (length m) + i) < length m" by simp
  then show ?thesis using False assms by (auto simp: matrix_row_def Let_def)
qed

lemma seed_loop_total:
  assumes "valid_argsort sim (length products)"
    and "\<forall>seed \<in> set rest. - int (length products) \<le> seed - 1 \<and> seed - 1 < int (length products)"
  shows "\<exists>adds'. seed_loop sim products excl rest adds = Inr adds'"
  using assms(2)
proof (induction rest arbitrary: adds)
  case Nil
  then show ?case by simp
next
  case (Cons seed rest)
  from assms(1) have len: "length sim = length products"
    and rows: "\<forall>row \<in> set sim. \<forall>idx \<in> set row. idx < length products"
    by (auto simp: valid_argsort_def)
  from Cons.prems len obtain row where row: "row \<in> set sim" "matrix_row sim (seed - 1) = Inr row"
    using matrix_row_in_range [of sim "seed - 1"] by auto
  with rows have "\<forall>idx \<in> set (most_similar row). idx < length products"
    using set_most_similar by blast
  then obtain adds1 where a1: "similar_loop products excl (most_similar row) adds = Inr adds1"
    by (simp add: similar_loop_eq)
  from Cons.IH [of adds1] Cons.prems obtain adds' where
    "seed_loop sim products excl rest adds1 = Inr adds'" by auto
  with row a1 show ?case by simp
qed

lemma content_based_filtering_returns:
  assumes "content_argsort lib (map content_text (products_df e)) = Inr content_similarity"
    and "valid_argsort content_similarity (length (products_df e))"
    and "\<forall>seed \<in> set (seed_products (interactions_df e) u).
           - int (length (products_df e)) \<le> seed - 1 \<and> seed - 1 < int (length (products_df e))"
  shows "\<exists>r. fst (content_based_filtering lib e u n) = Inr r"
proof -
  let ?ps = "with_content (products_df e)"
  have "valid_argsort content_similarity (length ?ps)"
    using assms(2) by (simp add: with_content_columns)
  moreover have "\<forall>seed \<in> set (seed_products (interactions_df e) u).
           - int (length ?ps) \<le> seed - 1 \<and> seed - 1 < int (length ?ps)"
    using assms(3) by (simp add: with_content_columns)
  ultimately obtain adds where
    "seed_loop content_similarity ?ps (seed_products (interactions_df e) u)
       (seed_products (interactions_df e) u) [] = Inr adds"
    using seed_loop_total by blast
  then have "content_adds lib ?ps (seed_products (interactions_df e) u) = Inr adds"
    using assms(1) by (simp add: content_adds_def with_content_columns)
  then show ?thesis by (simp add: fst_content_based_filtering)
qed

text \<open>
  C2 (as amended). For a user id with no interaction row at all and every \<open>n\<close>,
  collaborativeRank returns the empty list, not an error. contentRank returns the empty
  list when the catalog or the interaction log is empty; otherwise it is the cold-start
  computation from the default seeds 1, 2, 3, and returns or raises as that computation
  does: its list need not be empty. hybridRank raises when contentRank raises, and is
  otherwise the fusion of the empty collaborative list with contentRank's list. Neither
  raises when the library has computed a valid similarity matrix of a catalog of at least
  three products.
\<close>

theorem unknown_user_rankings:
  assumes "\<forall>r \<in> set (interactions_df e). user_id r \<noteq> u"
  shows "collaborative_filtering lib e u n = []
         \<and> content_based_filtering lib e u n =
             (if products_df e = [] \<or> interactions_df e = [] then (Inr [], e)
              else content_from_seeds lib e [1, 2, 3] n)
         \<and> fst (hybrid_recommendations lib e u n) =
             (case fst (content_based_filtering lib e u n) of
                Inl err \<Rightarrow> Inl err
              | Inr content_recs \<Rightarrow> Inr (hybrid_fuse [] content_recs n))
         \<and> (content_argsort lib (map content_text (products_df e)) = Inr content_similarity
              \<and> valid_argsort content_similarity (length (products_df e))
              \<and> 3 \<le> length (products_df e)
              \<longrightarrow> (\<exists>r. fst (content_based_filtering lib e u n) = Inr r
                       \<and> fst (hybrid_recommendations lib e u n) = Inr (hybrid_fuse [] r n)))"
proof -
  have seeds: "seed_products (interactions_df e) u = [1, 2, 3]"
    using assms by (intro seed_products_cold) auto
  have p123: "collaborative_filtering lib e u n = []
         \<and> content_based_filtering lib e u n =
             (if products_df e = [] \<or> interactions_df e = [] then (Inr [], e)
              else content_from_seeds lib e [1, 2, 3] n)
         \<and> fst (hybrid_recommendations lib e u n) =
             (case fst (content_based_filtering lib e u n) of
                Inl err \<Rightarrow> Inl err
              | Inr content_recs \<Rightarrow> Inr (hybrid_fuse [] content_recs n))"
    by (simp add: collaborative_filtering_unknown [OF assms] fst_hybrid_recommendations
        content_based_filtering_def seeds split: sum.splits)
  have p4: "\<exists>r. fst (content_based_filtering lib e u n) = Inr r
         \<and> fst (hybrid_recommendations lib e u n) = Inr (hybrid_fuse [] r n)"
    if a: "content_argsort lib (map content_text (products_df e)) = Inr content_similarity"
      and b: "valid_argsort content_similarity (length (products_df e))"
      and c: "3 \<le> length (products_df e)"
  proof -
    from c have "\<forall>seed \<in> set (seed_products (interactions_df e) u).
        - int (length (products_df e)) \<le> seed - 1 \<and> seed - 1 < int (length (products_df e))"
      by (auto simp: seeds)
    from content_based_filtering_returns [OF a b this]
    obtain r where r: "fst (content_based_filtering lib e u n) = Inr r" by blast
    then have "fst (hybrid_recommendations lib e u n) = Inr (hybrid_fuse [] r n)"
      by (simp add: fst_hybrid_recommendations collaborative_filtering_unknown [OF assms])
    with r show ?thesis by blast
  qed
  from p123 p4 show ?thesis by blast
qed

theorem unknown_user_rankings_witness:
  "filter (\<lambda>r. user_id r = 99) (interactions_df engine_A) = []
   \<and> valid_argsort [[1, 2, 3, 0], [0, 2, 3, 1], [0, 1, 3, 2], [1, 2, 0, 3]]
        (length (products_df engine_A))
   \<and> 3 \<le> length (products_df engine_A)
   \<and> collaborative_filtering library_A engine_A 99 5 = []
   \<and> content_based_filtering library_A engine_A 99 5
       = content_from_seeds library_A engine_A [1, 2, 3] 5
   \<and> (\<exists>r. fst (content_based_filtering library_A engine_A 99 5) = Inr r
          \<and> fst (hybrid_recommendations library_A engine_A 99 5) = Inr (hybrid_fuse [] r 5))"
proof -
  have h: "\<forall>r \<in> set (interactions_df engine_A). user_id r \<noteq> 99"
    by (simp add: engine_A_def purchase_of_def)
  have f: "filter (\<lambda>r. user_id r = 99) (interactions_df engine_A) = []"
    by (simp add: engine_A_def purchase_of_def)
  have ne: "\<not> (products_df engine_A = [] \<or> interactions_df engine_A = [])"
    by (simp add: engine_A_def catalog_A_def)
  have a: "content_argsort library_A (map content_text (products_df engine_A))
            = Inr [[1, 2, 3, 0], [0, 2, 3, 1], [0, 1, 3, 2], [1, 2, 0, 3]]"
    by (simp add: library_A_def library0_def)
  have b: "valid_argsort [[1, 2, 3, 0], [0, 2, 3, 1], [0, 1, 3, 2], [1, 2, 0, 3]]
              (length (products_df engine_A))"
    by code_simp
  have c: "3 \<le> length (products_df engine_A)"
    by (simp add: engine_A_def catalog_A_def)
  note T = unknown_user_rankings [OF h, of library_A 5
      "[[1, 2, 3, 0], [0, 2, 3, 1], [0, 1, 3, 2], [1, 2, 0, 3]]"]
  have t1: "collaborative_filtering library_A engine_A 99 5 = []"
    using T by blast
  have t2: "content_based_filtering library_A engine_A 99 5
       = content_from_seeds library_A engine_A [1, 2, 3] 5"
    using T ne by simp
  have t3: "\<exists>r. fst (content_based_filtering library_A engine_A 99 5) = Inr r
          \<and> fst (hybrid_recommendations library_A engine_A 99 5) = Inr (hybrid_fuse [] r 5)"
    using T a b c by blast
  from f b c t1 t2 t3 show ?thesis by (intro conjI)
qed

text \<open>
  C2 as stated fails: user 99 has no row in engine A, and contentRank and hybridRank
  return product 4, not the empty list. In engine F, whose catalog has two products,
  the seed 3 is no index of the similarity matrix, and both raise \<^verbatim>\<open>IndexError\<close>.
\<close>

theorem unknown_user_counterexample:
  "filter (\<lambda>r. user_id r = 99) (interactions_df engine_A) = []
   \<and> fst (content_based_filtering library_A engine_A 99 5) = Inr [4]
   \<and> fst (hybrid_recommendations library_A engine_A 99 5) = Inr [4]
   \<and> filter (\<lambda>r. user_id r = 99) (interactions_df engine_F) = []
   \<and> fst (content_based_filtering library_F engine_F 99 5) = Inl IndexError
   \<and> fst (hybrid_recommendations library_F engine_F 99 5) = Inl IndexError"
  by code_simp

text \<open>
  C7 (as amended). No ranking operation checks an interaction's product id against the
  catalog. collaborativeRank never reads the catalog: its result is the same whatever
  the catalog is, so a purchase row of a product the catalog does not have is in the
  user-item matrix like any other. contentRank, and hybridRank with it, returns when
  the library has computed the similarity matrix of the \<open>N\<close> products and every seed id
  \<open>s\<close> is an index of it, \<open>-N \<le> s - 1 < N\<close>.
\<close>

theorem rankings_without_catalog_check:
  assumes "content_argsort lib (map content_text (products_df e)) = Inr content_similarity"
    and "valid_argsort content_similarity (length (products_df e))"
    and "\<forall>seed \<in> set (seed_products (interactions_df e) u).
           - int (length (products_df e)) \<le> seed - 1 \<and> seed - 1 < int (length (products_df e))"
  shows "collaborative_filtering lib (e\<lparr>products_df := catalog\<rparr>) u n
           = collaborative_filtering lib e u n
         \<and> (\<exists>r. fst (content_based_filtering lib e u n) = Inr r)
         \<and> (\<exists>r. fst (hybrid_recommendations lib e u n) = Inr r)"
proof -
  let ?ps = "with_content (products_df e)"
  have "valid_argsort content_similarity (length ?ps)"
    using assms(2) by (simp add: with_content_columns)
  moreover have "\<forall>seed \<in> set (seed_products (interactions_df e) u).
           - int (length ?ps) \<le> seed - 1 \<and> seed - 1 < int (length ?ps)"
    using assms(3) by (simp add: with_content_columns)
  ultimately obtain adds where
    "seed_loop content_similarity ?ps (seed_products (interactions_df e) u)
       (seed_products (interactions_df e) u) [] = Inr adds"
    using seed_loop_total by blast
  then have "content_adds lib ?ps (seed_products (interactions_df e) u) = Inr adds"
    using assms(1) by (simp add: content_adds_def with_content_columns)
  then have c: "\<exists>r. fst (content_based_filtering lib e u n) = Inr r"
    by (simp add: fst_content_based_filtering)
  then have "\<exists>r. fst (hybrid_recommendations lib e u n) = Inr r"
    by (auto simp: fst_hybrid_recommendations)
  with c show ?thesis by (simp add: collaborative_filtering_def)
qed

theorem rankings_without_catalog_check_witness:
  "valid_argsort [[1, 2, 3, 0], [0, 2, 3, 1], [0, 1, 3, 2], [1, 2, 0, 3]]
     (length (products_df engine_A))
   \<and> seed_products (interactions_df engine_A) 7 = [1]
   \<and> collaborative_filtering library_A (engine_A\<lparr>products_df := []\<rparr>) 7 5
       = collaborative_filtering library_A engine_A 7 5
   \<and> (\<exists>r. fst (content_based_filtering library_A engine_A 7 5) = Inr r)
   \<and> (\<exists>r. fst (hybrid_recommendations library_A engine_A 7 5) = Inr r)"
proof -
  have h1: "content_argsort library_A (map content_text (products_df engine_A))
            = Inr [[1, 2, 3, 0], [0, 2, 3, 1], [0, 1, 3, 2], [1, 2, 0, 3]]"
    by (simp add: library_A_def library0_def)
  have h2: "valid_argsort [[1, 2, 3, 0], [0, 2, 3, 1], [0, 1, 3, 2], [1, 2, 0, 3]]
              (length (products_df engine_A))"
    by code_simp
  have s: "seed_products (interactions_df engine_A) 7 = [1]" by code_simp
  have h3: "\<forall>seed \<in> set (seed_products (interactions_df engine_A) 7).
              - int (length (products_df engine_A)) \<le> seed - 1
              \<and> seed - 1 < int (length (products_df engine_A))"
    unfolding s by (simp add: engine_A_def catalog_A_def)
  from rankings_without_catalog_check [OF h1 h2 h3, of "[]" 5] h2 s show ?thesis by blast
qed

text \<open>
  C7 as stated fails: in engine D user 8 purchased product 10, which the catalog of
  four products does not have. contentRank for user 8 raises \<^verbatim>\<open>IndexError\<close>, and the row
  is not excluded from the collaborative computation: product 10 is what
  collaborativeRank recommends to user 7.
\<close>

theorem missing_product_counterexample:
  "fst (content_based_filtering library_D engine_D 8 5) = Inl IndexError
   \<and> collaborative_filtering library_D engine_D 7 5 = [10]
   \<and> 10 \<notin> set (map prod_id (products_df engine_D))"
  by code_simp

text \<open>
  C8 (as amended). No ranking operation modifies the interaction records or the loaded
  fields of the product records (id, name, category, description, price, rating). When
  the catalog and the interaction log are not empty, contentRank, and hybridRank through
  it, writes the derived column \<^verbatim>\<open>content\<close> = category, a space, description into the
  product table itself. (\<open>collaborative_filtering\<close> and
  \<open>generate_smart_explanation\<close> assign nothing: they return no engine.)
\<close>

theorem content_column_written:
  "snd (content_based_filtering lib e u n) =
     (if products_df e = [] \<or> interactions_df e = [] then e
      else e\<lparr>products_df := with_content (products_df e)\<rparr>)
   \<and> snd (hybrid_recommendations lib e u n) = snd (content_based_filtering lib e u n)
   \<and> interactions_df (snd (content_based_filtering lib e u n)) = interactions_df e
   \<and> map (\<lambda>p. (prod_id p, name p, category p, description p, price p, prod_rating p))
        (products_df (snd (content_based_filtering lib e u n)))
       = map (\<lambda>p. (prod_id p, name p, category p, description p, price p, prod_rating p))
           (products_df e)
   \<and> map content (with_content (products_df e))
       = map (\<lambda>p. Some (category p @ '' '' @ description p)) (products_df e)"
  by (simp add: snd_content_based_filtering snd_hybrid_recommendations with_content_def
      content_text_def)

theorem content_column_written_witness:
  "snd (content_based_filtering library_A engine_A 7 5)
     = engine_A\<lparr>products_df := with_content (products_df engine_A)\<rparr>
   \<and> interactions_df (snd (content_based_filtering library_A engine_A 7 5))
       = interactions_df engine_A"
  using content_column_written [of library_A engine_A 7 5]
  by (simp add: engine_A_def catalog_A_def)

text \<open>
  C8 as stated fails: after contentRank for user 7 every product record of engine A has a
  \<^verbatim>\<open>content\<close> value it did not have after loading.
\<close>

theorem content_column_counterexample:
  "map content (products_df engine_A) = [None, None, None, None]
   \<and> map content (products_df (snd (content_based_filtering library_A engine_A 7 5)))
       = [Some ''Electronics wireless optical mouse'',
          Some ''Sports & Fitness non-slip yoga mat'',
          Some ''Books bestselling mystery novel'',
          Some ''Electronics fast usb charger'']"
  by code_simp

lemma slice_to_full: "length (slice_to m xs) < nat m \<Longrightarrow> slice_to m xs = xs"
  by (auto simp: slice_to_def split: if_splits)

lemma hybrid_fuse_Nil: "hybrid_fuse [] [] n = []"
  by (simp add: hybrid_fuse_def all_recs_of_def sorted_reverse_def slice_to_def)

lemma slice_to_Nil: "slice_to k [] = []"
  by (simp add: slice_to_def)

lemma collaborative_filtering_slices:
  "\<exists>top. \<forall>k. collaborative_filtering lib e u k = slice_to k top"
proof (cases "length (interactions_df e) = 0 \<or> length (purchase_rows (interactions_df e)) = 0
            \<or> u \<notin> set (matrix_index (purchase_rows (interactions_df e)))")
  case True
  then have "\<forall>k. collaborative_filtering lib e u k = slice_to k []"
    by (auto simp: collaborative_filtering_def Let_def slice_to_Nil)
  then show ?thesis ..
next
  case False
  let ?top = "map fst (sorted_reverse snd
      (neighbour_loop lib (purchase_rows (interactions_df e)) u
         (similar_users lib (purchase_rows (interactions_df e)) u) []))"
  from False have "\<forall>k. collaborative_filtering lib e u k = slice_to k ?top"
    by (simp add: collaborative_filtering_def Let_def map_slice_to)
  then show ?thesis ..
qed

lemma content_based_filtering_slices:
  assumes "fst (content_based_filtering lib e u m) = Inr full"
  shows "\<exists>top. \<forall>k. fst (content_based_filtering lib e u k) = Inr (slice_to k top)"
proof (cases "products_df e = [] \<or> interactions_df e = []")
  case True
  then have "\<forall>k. fst (content_based_filtering lib e u k) = Inr (slice_to k [])"
    by (simp add: fst_content_based_filtering slice_to_Nil)
  then show ?thesis ..
next
  case False
  with assms obtain adds where
    "content_adds lib (with_content (products_df e)) (seed_products (interactions_df e) u)
       = Inr adds"
    by (auto simp: fst_content_based_filtering split: sum.splits)
  with False have "\<forall>k. fst (content_based_filtering lib e u k)
      = Inr (slice_to k (set_order lib adds))"
    by (simp add: fst_content_based_filtering)
  then show ?thesis ..
qed

lemma hybrid_fuse_slices:
  "hybrid_fuse collab_recs content_recs k
     = slice_to k (map fst (sorted_reverse snd (all_recs_of collab_recs content_recs)))"
  by (simp add: hybrid_fuse_def map_slice_to)

text \<open>
  C9 (as amended). A negative \<open>n\<close> is not an error: \<open>n\<close> is used only as the bound of
  slices \<open>[:n]\<close>, so whether an operation raises does not depend on \<open>n\<close>. For
  collaborativeRank and contentRank, when a call with a count \<open>m\<close> returned fewer than
  \<open>m\<close> products (all candidates), the call with any \<open>n\<close>, negative included, returns
  the slice \<open>[:n]\<close> of that list (for a negative \<open>n\<close>, the list without its last \<open>-n\<close>
  products). hybridRank fuses the two lists already sliced with \<open>[:n]\<close> and slices the
  fusion with \<open>[:n]\<close> again: for a negative \<open>n\<close> it is the fusion of the two shortened
  lists without its last \<open>-n\<close> products, which need not be the hybrid ranking of a
  positive count without its last \<open>-n\<close> products. With an empty interaction log every
  ranking is the empty list; collaborativeRank never raises, and hybridRank raises
  exactly when contentRank does.
\<close>

theorem negative_n_is_a_slice:
  "(interactions_df e = [] \<longrightarrow>
      collaborative_filtering lib e u n = [] \<and> fst (content_based_filtering lib e u n) = Inr []
      \<and> fst (hybrid_recommendations lib e u n) = Inr [])
   \<and> (fst (content_based_filtering lib e u n) = Inl err)
       = (fst (content_based_filtering lib e u m) = Inl err)
   \<and> (fst (hybrid_recommendations lib e u n) = Inl err)
       = (fst (content_based_filtering lib e u n) = Inl err)
   \<and> (length (collaborative_filtering lib e u m) < nat m \<longrightarrow>
        collaborative_filtering lib e u n = slice_to n (collaborative_filtering lib e u m))
   \<and> (fst (content_based_filtering lib e u m) = Inr full \<and> length full < nat m \<longrightarrow>
        fst (content_based_filtering lib e u n) = Inr (slice_to n full))
   \<and> (fst (content_based_filtering lib e u n) = Inr content_recs \<longrightarrow>
        fst (hybrid_recommendations lib e u n)
          = Inr (hybrid_fuse (collaborative_filtering lib e u n) content_recs n))
   \<and> (length (hybrid_fuse collab_recs content_recs m) < nat m \<longrightarrow>
        hybrid_fuse collab_recs content_recs n
          = slice_to n (hybrid_fuse collab_recs content_recs m))"
proof -
  have p1: "interactions_df e = [] \<longrightarrow>
      collaborative_filtering lib e u n = [] \<and> fst (content_based_filtering lib e u n) = Inr []
      \<and> fst (hybrid_recommendations lib e u n) = Inr []"
    by (simp add: fst_hybrid_recommendations fst_content_based_filtering
        collaborative_filtering_def hybrid_fuse_Nil)
  have p2: "(fst (content_based_filtering lib e u n) = Inl err)
       = (fst (content_based_filtering lib e u m) = Inl err)"
    by (simp add: fst_content_based_filtering split: sum.splits)
  have p3: "(fst (hybrid_recommendations lib e u n) = Inl err)
       = (fst (content_based_filtering lib e u n) = Inl err)"
    by (simp add: fst_hybrid_recommendations split: sum.splits)
  have p4: "collaborative_filtering lib e u n = slice_to n (collaborative_filtering lib e u m)"
    if "length (collaborative_filtering lib e u m) < nat m"
  proof -
    obtain top where top: "\<And>k. collaborative_filtering lib e u k = slice_to k top"
      using collaborative_filtering_slices by blast
    from that have "length (slice_to m top) < nat m" by (simp add: top)
    then have "slice_to m top = top" by (rule slice_to_full)
    then show ?thesis by (simp add: top)
  qed
  have p5: "fst (content_based_filtering lib e u n) = Inr (slice_to n full)"
    if a: "fst (content_based_filtering lib e u m) = Inr full" and b: "length full < nat m"
  proof -
    obtain top where top: "\<And>k. fst (content_based_filtering lib e u k) = Inr (slice_to k top)"
      using content_based_filtering_slices [OF a] by blast
    from a top [of m] have full: "full = slice_to m top" by simp
    with b have "length (slice_to m top) < nat m" by simp
    then have "slice_to m top = top" by (rule slice_to_full)
    with full show ?thesis by (simp add: top)
  qed
  have p6: "fst (hybrid_recommendations lib e u n)
          = Inr (hybrid_fuse (collaborative_filtering lib e u n) content_recs n)"
    if "fst (content_based_filtering lib e u n) = Inr content_recs"
    using that by (simp add: fst_hybrid_recommendations)
  have p7: "hybrid_fuse collab_recs content_recs n
          = slice_to n (hybrid_fuse collab_recs content_recs m)"
    if c: "length (hybrid_fuse collab_recs content_recs m) < nat m"
  proof -
    let ?top = "map fst (sorted_reverse snd (all_recs_of collab_recs content_recs))"
    from c have "length (slice_to m ?top) < nat m" by (simp add: hybrid_fuse_slices)
    then have "slice_to m ?top = ?top" by (rule slice_to_full)
    then show ?thesis by (simp add: hybrid_fuse_slices)
  qed
  from p1 p2 p3 p4 p5 p6 p7 show ?thesis by blast
qed

theorem negative_n_is_a_slice_witness:
  "fst (content_based_filtering library_A engine_A 7 5) = Inr [2, 3, 4]
   \<and> length [2, 3, 4 :: int] < nat 5
   \<and> fst (content_based_filtering library_A engine_A 7 (- 1)) = Inr (slice_to (- 1) [2, 3, 4])
   \<and> fst (hybrid_recommendations library_A engine_A 7 (- 1))
       = Inr (hybrid_fuse (collaborative_filtering library_A engine_A 7 (- 1))
                (slice_to (- 1) [2, 3, 4]) (- 1))"
proof -
  have h: "fst (content_based_filtering library_A engine_A 7 5) = Inr [2, 3, 4]"
    by code_simp
  have l: "length [2, 3, 4 :: int] < nat 5" by simp
  from negative_n_is_a_slice [where lib = library_A and e = engine_A and u = 7 and n = "- 1"
      and m = 5 and full = "[2, 3, 4]" and content_recs = "slice_to (- 1) [2, 3, 4]"] h l
  show ?thesis by blast
qed

text \<open>
  C9 as stated fails: with \<open>n = -1\<close> no ranking operation raises. collaborativeRank
  and contentRank return their ranking without the last product; hybridRank returns
  product 2 alone, the fusion of the shortened lists without its last product, where its
  ranking for \<open>n = 5\<close> is 2, 3, 4.
\<close>

theorem negative_n_counterexample:
  "collaborative_filtering library_D engine_D 7 5 = [10]
   \<and> collaborative_filtering library_D engine_D 7 (- 1) = []
   \<and> fst (content_based_filtering library_A engine_A 7 5) = Inr [2, 3, 4]
   \<and> fst (content_based_filtering library_A engine_A 7 (- 1)) = Inr [2, 3]
   \<and> fst (hybrid_recommendations library_A engine_A 7 5) = Inr [2, 3, 4]
   \<and> fst (hybrid_recommendations library_A engine_A 7 (- 1)) = Inr [2]"
  by code_simp

subsection \<open>CollaborativeFilter\<close>

lemma remdups_snoc: "remdups (ys @ [x]) = filter (\<lambda>y. y \<noteq> x) (remdups ys) @ [x]"
  by (induction ys) auto

lemma unique_Cons: "unique (x # xs) = x # filter (\<lambda>y. y \<noteq> x) (unique xs)"
  by (simp add: unique_def remdups_snoc rev_filter)

lemma set_unique: "set (unique xs) = set xs"
  by (simp add: unique_def)

lemma distinct_unique: "distinct (unique xs)"
  by (simp add: unique_def)

lemma add_products_stream:
  "add_products s ps d = add_stream (map (\<lambda>p. (p, s)) ps) d"
  by (induction ps arbitrary: d) auto

lemma add_stream_append: "add_stream (xs @ ys) d = add_stream ys (add_stream xs d)"
  by (induction xs d rule: add_stream.induct) auto

lemma neighbour_loop_stream:
  "neighbour_loop lib purchase_data u ns d =
     add_stream (concat (map (\<lambda>(v, s). map (\<lambda>p. (p, s)) (new_products lib purchase_data u v)) ns)) d"
  by (induction ns arbitrary: d) (auto simp: add_products_stream add_stream_append)

lemma keys_add_stream:
  "map fst (add_stream adds d) =
     map fst d @ filter (\<lambda>p. p \<notin> set (map fst d)) (unique (map fst adds))"
proof (induction adds d rule: add_stream.induct)
  case (1 d)
  then show ?case by (simp add: unique_Nil)
next
  case (2 p s rest d)
  let ?U = "unique (map fst rest)"
  obtain v where step: "add_stream ((p, s) # rest) d = add_stream rest (dict_set d p v)"
    and IH: "map fst (add_stream rest (dict_set d p v)) =
      map fst (dict_set d p v) @ filter (\<lambda>q. q \<notin> set (map fst (dict_set d p v))) ?U"
    using 2 by (cases "dict_get d p") auto
  from step IH have eq: "map fst (add_stream ((p, s) # rest) d) =
      map fst (dict_set d p v) @ filter (\<lambda>q. q \<notin> set (map fst (dict_set d p v))) ?U"
    by (simp only:)
  show ?case
  proof (cases "p \<in> set (map fst d)")
    case True
    then have "filter (\<lambda>q. q \<notin> set (map fst d)) (filter (\<lambda>y. y \<noteq> p) ?U)
               = filter (\<lambda>q. q \<notin> set (map fst d)) ?U"
      unfolding filter_filter by (intro filter_cong) auto
    with True show ?thesis
      unfolding eq by (simp add: keys_dict_set unique_Cons del: add_stream.simps)
  next
    case False
    then have "filter (\<lambda>q. q \<notin> set (map fst d @ [p])) ?U
               = filter (\<lambda>q. q \<notin> set (map fst d)) (filter (\<lambda>y. y \<noteq> p) ?U)"
      unfolding filter_filter by (intro filter_cong) auto
    with False show ?thesis
      unfolding eq by (simp add: keys_dict_set unique_Cons del: add_stream.simps)
  qed
qed

lemma filter_key_absent:
  "\<forall>x \<in> set rest. p \<noteq> fst x \<Longrightarrow> filter (\<lambda>(q, s). q = p) rest = []"
  by (auto simp: filter_empty_conv)

lemma map_of_add_stream:
  "map_of (add_stream adds d) p =
     (if p \<in> fst ` set adds
      then Some (foldl float_add (case map_of d p of None \<Rightarrow> 0 | Some w \<Rightarrow> w)
                   (map snd (filter (\<lambda>(q, s). q = p) adds)))
      else map_of d p)"
proof (induction adds d rule: add_stream.induct)
  case (1 d)
  then show ?case by simp
next
  case (2 q s rest d)
  then show ?case
    by (cases "dict_get d q")
      (auto simp: map_of_dict_set dict_get_def image_iff filter_key_absent)
qed

lemma add_stream_items:
  "add_stream adds [] = map (\<lambda>p. (p, accumulated_weight adds p)) (unique (map fst adds))"
proof -
  let ?d = "add_stream adds []"
  have keys: "map fst ?d = unique (map fst adds)"
    using keys_add_stream [of adds "[]"] by simp
  then have "distinct (map fst ?d)" by (simp add: distinct_unique)
  then have "?d = map (\<lambda>p. (p, the (map_of ?d p))) (map fst ?d)" by (rule dict_items_eq)
  also have "\<dots> = map (\<lambda>p. (p, accumulated_weight adds p)) (unique (map fst adds))"
    unfolding keys
    by (intro map_cong) (auto simp: map_of_add_stream accumulated_weight_def set_unique)
  finally show ?thesis .
qed

lemma collaborative_filtering_ranked:
  assumes "in_matrix e u"
  shows "collaborative_filtering lib e u n =
     slice_to n (sorted_reverse (accumulated_weight (neighbour_adds lib (purchase_rows (interactions_df e)) u))
       (unique (map fst (neighbour_adds lib (purchase_rows (interactions_df e)) u))))"
proof -
  let ?pd = "purchase_rows (interactions_df e)"
  from assms have u: "u \<in> set (matrix_index ?pd)" by (simp add: in_matrix_def)
  then have "?pd \<noteq> []" by (auto simp: matrix_index_def)
  moreover from this have "interactions_df e \<noteq> []" by (auto simp: purchase_rows_def)
  ultimately have "collaborative_filtering lib e u n =
      map fst (slice_to n (sorted_reverse snd (add_stream (neighbour_adds lib ?pd u) [])))"
    using u by (simp add: collaborative_filtering_def Let_def neighbour_loop_stream neighbour_adds_def)
  then show ?thesis
    by (simp add: add_stream_items map_slice_to sorted_reverse_def sort_key_map comp_def)
qed

text \<open>
  C4 (as amended). For a user of the purchase matrix, collaborativeRank sorts the
  candidate products by accumulated neighbour-similarity weight in descending order;
  candidates of equal weight stay in the order in which they were first added while the
  neighbours were visited (there is no tie-break by product id); the result is the
  slice \<open>[:n]\<close> of that order. For any other user it is empty.
\<close>

theorem collaborative_filtering_by_weight:
  "(\<not> in_matrix e u \<longrightarrow> collaborative_filtering lib e u n = [])
   \<and> (in_matrix e u \<longrightarrow>
       (let adds = neighbour_adds lib (purchase_rows (interactions_df e)) u;
            weight = accumulated_weight adds;
            candidates = unique (map fst adds);
            ranked = sorted_reverse weight candidates
        in collaborative_filtering lib e u n = slice_to n ranked
           \<and> sorted (map (\<lambda>p. - weight p) ranked)
           \<and> (\<forall>s. filter (\<lambda>p. weight p = s) ranked = filter (\<lambda>p. weight p = s) candidates)))"
proof -
  have "collaborative_filtering lib e u n = []" if "\<not> in_matrix e u"
    using that by (simp add: collaborative_filtering_def in_matrix_def Let_def)
  then show ?thesis
    by (simp add: Let_def collaborative_filtering_ranked sorted_reverse_descending
        sorted_reverse_stable)
qed

theorem collaborative_filtering_by_weight_witness:
  "in_matrix engine_B 1
   \<and> collaborative_filtering library_B engine_B 1 1 =
       slice_to 1
         (sorted_reverse (accumulated_weight (neighbour_adds library_B (purchase_rows (interactions_df engine_B)) 1))
            (unique (map fst (neighbour_adds library_B (purchase_rows (interactions_df engine_B)) 1))))"
proof -
  have h: "in_matrix engine_B 1" by code_simp
  from collaborative_filtering_by_weight [of engine_B 1 library_B 1] h
  show ?thesis by (simp add: Let_def)
qed

text \<open>
  C4 as stated fails: in engine B the neighbours of user 1 are user 2, who adds product 9,
  and then the users 3 and 4, who add the products 2 to 8. All eight candidates
  accumulate the same weight (the similarity of user 2 is twice that of users 3 and 4),
  and the engine ranks product 9 first, where ascending product ids put product 2 first.
\<close>

theorem collaborative_tie_counterexample:
  "collaborative_filtering library_B engine_B 1 1 = [9]
   \<and> collaborative_by_ascending_id library_B engine_B 1 1 = [2]
   \<and> accumulated_weight (neighbour_adds library_B (purchase_rows (interactions_df engine_B)) 1) 9
       = accumulated_weight (neighbour_adds library_B (purchase_rows (interactions_df engine_B)) 1) 2"
  by code_simp

text \<open>
  C5. The engine excludes the target by its place: it drops the first entry of the
  target's similarity column sorted in descending order and takes the next five. The
  claim fails where the target is not that first entry. In engine C the users 1 and 2
  have the same purchases, so the column of user 2 has similarity 1 for both; user 1 is
  its first entry, and the neighbours of user 2 are user 2 itself and user 3, without
  user 1, the most similar other user.
\<close>

theorem self_neighbour_counterexample:
  "purchased_products (purchase_rows (interactions_df engine_C)) 1 = purchased_products (purchase_rows (interactions_df engine_C)) 2
   \<and> map fst (similar_users library_C (purchase_rows (interactions_df engine_C)) 2) = [2, 3]"
  by code_simp

end
